theory Spec2Isabelle
  imports Main
begin

section \<open>JavaScript values\<close>

text \<open>
  The values that travel through the tool manager (call arguments, tool results,
  declarations, response envelopes) are JSON-like JavaScript values. An object is the
  list of its own properties, each key once, in insertion order. A number is kept as the
  string that \<open>Number.prototype.toString\<close> prints for it (\<open>0\<close> and \<open>-0\<close> both
  print \<open>0\<close>), which is all that the code below can observe of a number.
\<close>

datatype js_value =
    JUndefined
  | JNull
  | JBool bool
  | JNum string
  | JStr string
  | JArr "js_value list"
  | JObj "(string \<times> js_value) list"

text \<open>
  \<open>js_truthy\<close> is the test of \<open>!\<close>, \<open>if\<close>, \<open>?:\<close> and \<open>||\<close>. \<open>js_get\<close> reads a
  property of a value that is neither \<open>undefined\<close> nor \<open>null\<close>; among the values
  modelled only objects have the properties that are read below.
\<close>

fun js_truthy :: "js_value \<Rightarrow> bool" where
  "js_truthy JUndefined = False"
| "js_truthy JNull = False"
| "js_truthy (JBool b) = b"
| "js_truthy (JNum n) = (n \<noteq> ''0'' \<and> n \<noteq> ''NaN'')"
| "js_truthy (JStr s) = (s \<noteq> [])"
| "js_truthy (JArr xs) = True"
| "js_truthy (JObj ps) = True"

fun js_get :: "js_value \<Rightarrow> string \<Rightarrow> js_value" where
  "js_get (JObj ps) k = (case map_of ps k of None \<Rightarrow> JUndefined | Some v \<Rightarrow> v)"
| "js_get v k = JUndefined"

text \<open>
  \<open>ErrorCodes\<close> is imported from \<open>utils/error-boundary.js\<close>; the two members that
  \<open>tool-manager.js\<close> names are kept as they are written there.
\<close>

datatype ErrorCodes = INVALID_STATE | INVALID_PARAMETER

text \<open>
  Modelled from the spec: the class \<open>ApplicationError\<close> of \<open>utils/error-boundary.js\<close>
  is not part of the sources at hand. The spec asks that the error "carries enough
  information for a caller to detect this class of failure programmatically (not just a
  message string)", so an \<open>ApplicationError\<close> keeps the message and the code it was
  constructed with.

  \<open>js_error\<close> are the error objects: the \<open>Error\<close> built by \<open>email-sender.js\<close>, the
  \<open>ApplicationError\<close> built by \<open>tool-manager.js\<close>, and the \<open>TypeError\<close> the runtime
  raises when a property of \<open>undefined\<close> or \<open>null\<close> is read or a value that is not a
  function is called (its messages are those of V8).
\<close>

datatype js_error =
    Error string
  | TypeError string
  | ApplicationError string ErrorCodes

fun message :: "js_error \<Rightarrow> string" where
  "message (Error m) = m"
| "message (TypeError m) = m"
| "message (ApplicationError m c) = m"

text \<open>
  JavaScript throws any value, not only error objects: a tool may reject with a string,
  with \<open>null\<close> or with nothing at all (\<open>undefined\<close>).
\<close>

datatype js_thrown = ThrownError js_error | ThrownValue js_value

text \<open>
  The expression \<open>error.message\<close> on a caught value. On an error object it is the
  message; on \<open>undefined\<close> and \<open>null\<close> the read itself throws; on any other value it
  is the property of that name, \<open>undefined\<close> when there is none.
\<close>

fun error_message :: "js_thrown \<Rightarrow> js_thrown + js_value" where
  "error_message (ThrownError e) = Inr (JStr (message e))"
| "error_message (ThrownValue JUndefined) =
     Inl (ThrownError (TypeError ''Cannot read properties of undefined (reading 'message')''))"
| "error_message (ThrownValue JNull) =
     Inl (ThrownError (TypeError ''Cannot read properties of null (reading 'message')''))"
| "error_message (ThrownValue v) = Inr (js_get v ''message'')"

text \<open>
  A promise is modelled by the way it settles. An \<open>async\<close> function that returns
  fulfills its promise; one that throws rejects it with what it threw.
\<close>

datatype ('a, 'e) promise = Fulfilled 'a | Rejected 'e

section \<open>The tool manager\<close>

text \<open>
  A member of a tool instance is a function or some other value (\<open>undefined\<close> when the
  member is missing). \<open>getDeclaration\<close> takes no argument, so the function is given by
  what a call of it does: it throws (\<open>Inl\<close>) or returns (\<open>Inr\<close>). \<open>execute\<close> is given by
  how its promise settles on each argument.
\<close>

datatype 'f member = Value js_value | Method 'f

fun member_truthy :: "'f member \<Rightarrow> bool" where
  "member_truthy (Value v) = js_truthy v"
| "member_truthy (Method f) = True"

record tool =
  getDeclaration :: "(js_thrown + js_value) member"
  execute :: "(js_value \<Rightarrow> (js_value, js_thrown) promise) member"

text \<open>
  \<open>registerTool\<close> stores whatever it is given: an instance with the two members, or a
  plain value, which has no function among its properties.
\<close>

datatype tool_value = Plain js_value | Instance tool

fun tool_truthy :: "tool_value \<Rightarrow> bool" where
  "tool_truthy (Plain v) = js_truthy v"
| "tool_truthy (Instance t) = True"

text \<open>The reads \<open>tool.getDeclaration\<close> and \<open>tool.execute\<close>.\<close>

fun tool_getDeclaration :: "tool_value \<Rightarrow> js_thrown + (js_thrown + js_value) member" where
  "tool_getDeclaration (Instance t) = Inr (getDeclaration t)"
| "tool_getDeclaration (Plain JUndefined) =
     Inl (ThrownError
       (TypeError ''Cannot read properties of undefined (reading 'getDeclaration')''))"
| "tool_getDeclaration (Plain JNull) =
     Inl (ThrownError (TypeError ''Cannot read properties of null (reading 'getDeclaration')''))"
| "tool_getDeclaration (Plain v) = Inr (Value (js_get v ''getDeclaration''))"

fun tool_execute ::
  "tool_value \<Rightarrow> js_thrown + (js_value \<Rightarrow> (js_value, js_thrown) promise) member" where
  "tool_execute (Instance t) = Inr (execute t)"
| "tool_execute (Plain JUndefined) =
     Inl (ThrownError (TypeError ''Cannot read properties of undefined (reading 'execute')''))"
| "tool_execute (Plain JNull) =
     Inl (ThrownError (TypeError ''Cannot read properties of null (reading 'execute')''))"
| "tool_execute (Plain v) = Inr (Value (js_get v ''execute''))"

text \<open>
  \<open>this.tools\<close> is a JavaScript \<open>Map\<close>: it iterates in insertion order, so it is kept
  as the list of its entries. The second field is not a field of the class: it records,
  in order, every call of a tool's \<open>execute\<close> that the manager makes (the key the tool
  was found under and the argument passed), so that "executes no tool" can be stated.
  The type of the stored values is a parameter, since \<open>registerTool\<close> does not look at
  them.
\<close>

record 't ToolManager =
  tools :: "(string \<times> 't) list"
  executed :: "(string \<times> js_value) list"

definition Map_has :: "(string \<times> 't) list \<Rightarrow> string \<Rightarrow> bool" where
  "Map_has m k = (k \<in> set (map fst m))"

definition Map_get :: "(string \<times> 't) list \<Rightarrow> string \<Rightarrow> 't option" where
  "Map_get m k = map_of m k"

text \<open>\<open>Map.prototype.set\<close>: an existing key keeps its place, a new key goes last.\<close>

fun Map_set :: "(string \<times> 't) list \<Rightarrow> string \<Rightarrow> 't \<Rightarrow> (string \<times> 't) list" where
  "Map_set [] k v = [(k, v)]"
| "Map_set ((k', v') # m) k v = (if k' = k then (k, v) # m else (k', v') # Map_set m k v)"

text \<open>The constructor's \<open>this.tools = new Map()\<close>, before any registration.\<close>

definition new_ToolManager :: "'t ToolManager" where
  "new_ToolManager = \<lparr>tools = [], executed = []\<rparr>"

text \<open>
  \<open>registerTool\<close> either throws (\<open>Inl\<close>) or returns (\<open>Inr\<close>); the manager after the
  call is the second component in both cases. The calls of \<open>Logger\<close> are left out here
  and below: the logger returns nothing and holds no state of the manager.
\<close>

definition registerTool ::
  "string \<Rightarrow> 't \<Rightarrow> 't ToolManager \<Rightarrow> (js_error + unit) \<times> 't ToolManager" where
  "registerTool name toolInstance this =
     (if Map_has (tools this) name
      then (Inl (ApplicationError (''Tool '' @ name @ '' is already registered'') INVALID_STATE),
            this)
      else (Inr (), this\<lparr>tools := Map_set (tools this) name toolInstance\<rparr>))"

text \<open>
  A run of \<open>registerTool\<close> calls written one after the other, as in
  \<open>registerDefaultTools\<close>: the first call that throws ends the run.
\<close>

fun registerTools ::
  "(string \<times> 't) list \<Rightarrow> 't ToolManager \<Rightarrow> (js_error + unit) \<times> 't ToolManager" where
  "registerTools [] this = (Inr (), this)"
| "registerTools ((name, toolInstance) # rest) this =
     (case registerTool name toolInstance this of
        (Inl e, this') \<Rightarrow> (Inl e, this')
      | (Inr u, this') \<Rightarrow> registerTools rest this')"

text \<open>
  The call \<open>tool.getDeclaration()\<close>: a member that is not a function cannot be called.
\<close>

fun call_getDeclaration :: "(js_thrown + js_value) member \<Rightarrow> js_thrown + js_value" where
  "call_getDeclaration (Method r) = r"
| "call_getDeclaration (Value v) =
     Inl (ThrownError (TypeError ''tool.getDeclaration is not a function''))"

text \<open>
  The callback of \<open>getToolDeclarations\<close> on one entry of \<open>this.tools\<close>: it throws, or
  it returns with \<open>allDeclarations\<close> as it is or with one more record. The guard is a
  test of truthiness of the member, not a test that it is a function.
\<close>

definition push_declaration ::
  "js_value list \<Rightarrow> string \<Rightarrow> tool_value \<Rightarrow> js_thrown + js_value list" where
  "push_declaration allDeclarations name t =
     (case tool_getDeclaration t of
        Inl thrown \<Rightarrow> Inl thrown
      | Inr m \<Rightarrow>
          if member_truthy m
          then (case call_getDeclaration m of
                  Inl thrown \<Rightarrow> Inl thrown
                | Inr declaration \<Rightarrow>
                    if name = ''weather''
                    then Inr (allDeclarations @ [JObj [(''functionDeclarations'', declaration)]])
                    else Inr (allDeclarations @ [JObj [(name, declaration)]]))
          else Inr allDeclarations)"

text \<open>
  \<open>this.tools.forEach\<close> with that callback, over the entries in insertion order; what
  the callback throws ends the loop.
\<close>

fun forEach_tool ::
  "(string \<times> tool_value) list \<Rightarrow> js_value list \<Rightarrow> js_thrown + js_value list" where
  "forEach_tool [] allDeclarations = Inr allDeclarations"
| "forEach_tool ((name, t) # rest) allDeclarations =
     (case push_declaration allDeclarations name t of
        Inl thrown \<Rightarrow> Inl thrown
      | Inr allDeclarations' \<Rightarrow> forEach_tool rest allDeclarations')"

definition getToolDeclarations ::
  "tool_value ToolManager \<Rightarrow> (js_thrown + js_value list) \<times> tool_value ToolManager" where
  "getToolDeclarations this = (forEach_tool (tools this) [], this)"

text \<open>The object destructured by \<open>handleToolCall\<close>.\<close>

record functionCall =
  name :: string
  args :: js_value
  id_call :: js_value

text \<open>The object \<open>{ functionResponses: [{ response, id }] }\<close>.\<close>

definition functionResponses :: "js_value \<Rightarrow> js_value \<Rightarrow> js_value" where
  "functionResponses response ident =
     JObj [(''functionResponses'', JArr [JObj [(''response'', response), (''id'', ident)]])]"

text \<open>
  \<open>await tool.execute(args)\<close> inside the \<open>try\<close>: a member that is not a function
  cannot be called, and the \<open>TypeError\<close> goes to the \<open>catch\<close> like a rejection of the
  tool itself. A call that is made is recorded.
\<close>

definition await_execute ::
  "string \<Rightarrow> tool_value \<Rightarrow> js_value \<Rightarrow> tool_value ToolManager \<Rightarrow>
   (js_value, js_thrown) promise \<times> tool_value ToolManager" where
  "await_execute key t a this =
     (case tool_execute t of
        Inl thrown \<Rightarrow> (Rejected thrown, this)
      | Inr (Value v) \<Rightarrow>
          (Rejected (ThrownError (TypeError ''tool.execute is not a function'')), this)
      | Inr (Method f) \<Rightarrow> (f a, this\<lparr>executed := executed this @ [(key, a)]\<rparr>))"

text \<open>
  \<open>handleToolCall\<close>. \<open>Map.prototype.get\<close> gives \<open>undefined\<close> for a key that is not
  bound, and \<open>!tool\<close> tests the value found. In the \<open>catch\<close> the response is built from
  \<open>error.message\<close>; when that read throws, nothing catches it and the promise of
  \<open>handleToolCall\<close> is rejected.
\<close>

definition handleToolCall ::
  "functionCall \<Rightarrow> tool_value ToolManager \<Rightarrow>
   (js_value, js_thrown) promise \<times> tool_value ToolManager" where
  "handleToolCall fc this =
     (let key = (if name fc = ''get_weather_on_date'' then ''weather'' else name fc);
          t = (case Map_get (tools this) key of None \<Rightarrow> Plain JUndefined | Some v \<Rightarrow> v)
      in if \<not> tool_truthy t
         then (Rejected (ThrownError
                 (ApplicationError (''Unknown tool: '' @ name fc) INVALID_PARAMETER)), this)
         else (case await_execute key t (args fc) this of
                 (Fulfilled result, this') \<Rightarrow>
                   (Fulfilled (functionResponses (JObj [(''output'', result)]) (id_call fc)),
                    this')
               | (Rejected error, this') \<Rightarrow>
                   (case error_message error of
                      Inl thrown \<Rightarrow> (Rejected thrown, this')
                    | Inr m \<Rightarrow>
                        (Fulfilled (functionResponses (JObj [(''error'', m)]) (id_call fc)),
                         this'))))"

section \<open>The email sender\<close>

text \<open>
  \<open>ToString\<close>, applied by a template literal and by \<open>join\<close> to each element. An array
  prints as its elements joined by a comma; \<open>join\<close> prints \<open>undefined\<close> and \<open>null\<close>
  as the empty string. A plain object prints as \<open>[object Object]\<close> through the method
  it inherits; an own property called \<open>toString\<close> hides that method, and since no
  value here is a function the conversion then throws.
\<close>

fun ToString :: "js_value \<Rightarrow> js_error + string"
  and Array_join :: "js_value list \<Rightarrow> string \<Rightarrow> js_error + string"
  and join_element :: "js_value \<Rightarrow> js_error + string" where
  "ToString JUndefined = Inr ''undefined''"
| "ToString JNull = Inr ''null''"
| "ToString (JBool b) = Inr (if b then ''true'' else ''false'')"
| "ToString (JNum n) = Inr n"
| "ToString (JStr s) = Inr s"
| "ToString (JArr xs) = Array_join xs '',''"
| "ToString (JObj ps) =
     (if ''toString'' \<in> set (map fst ps)
      then Inl (TypeError ''Cannot convert object to primitive value'')
      else Inr ''[object Object]'')"
| "Array_join [] sep = Inr []"
| "Array_join [x] sep = join_element x"
| "Array_join (x # y # ys) sep =
     (case join_element x of
        Inl e \<Rightarrow> Inl e
      | Inr s \<Rightarrow> (case Array_join (y # ys) sep of
                    Inl e \<Rightarrow> Inl e
                  | Inr r \<Rightarrow> Inr (s @ sep @ r)))"
| "join_element JUndefined = Inr []"
| "join_element JNull = Inr []"
| "join_element (JBool b) = ToString (JBool b)"
| "join_element (JNum n) = ToString (JNum n)"
| "join_element (JStr s) = ToString (JStr s)"
| "join_element (JArr xs) = ToString (JArr xs)"
| "join_element (JObj ps) = ToString (JObj ps)"

text \<open>
  \<open>recipients.join(', ')\<close>: reading \<open>join\<close> from \<open>undefined\<close> or \<open>null\<close> throws, and
  so does calling it on anything but an array (the messages are those of V8).
\<close>

fun recipients_join :: "js_value \<Rightarrow> string \<Rightarrow> js_error + string" where
  "recipients_join JUndefined sep =
     Inl (TypeError ''Cannot read properties of undefined (reading 'join')'')"
| "recipients_join JNull sep =
     Inl (TypeError ''Cannot read properties of null (reading 'join')'')"
| "recipients_join (JArr xs) sep = Array_join xs sep"
| "recipients_join v sep = Inl (TypeError ''recipients.join is not a function'')"

text \<open>\<open>const { recipients, subject, body, attachment } = args\<close>.\<close>

fun destructure_args ::
  "js_value \<Rightarrow> js_error + (js_value \<times> js_value \<times> js_value \<times> js_value)" where
  "destructure_args JUndefined =
     Inl (TypeError ''Cannot destructure property 'recipients' of 'args' as it is undefined.'')"
| "destructure_args JNull =
     Inl (TypeError ''Cannot destructure property 'recipients' of 'args' as it is null.'')"
| "destructure_args a =
     Inr (js_get a ''recipients'', js_get a ''subject'', js_get a ''body'',
          js_get a ''attachment'')"

text \<open>\<open>process.env.EMAIL_USER || 'codexxxhost@gmail.com'\<close>; an unset variable is \<open>None\<close>.\<close>

definition email_from :: "string option \<Rightarrow> string" where
  "email_from EMAIL_USER =
     (case EMAIL_USER of
        None \<Rightarrow> ''codexxxhost@gmail.com''
      | Some u \<Rightarrow> if u = [] then ''codexxxhost@gmail.com'' else u)"

text \<open>The template literal that builds the result, evaluated from left to right.\<close>

definition email_result ::
  "js_value \<Rightarrow> js_value \<Rightarrow> js_value \<Rightarrow> js_value \<Rightarrow> js_error + string" where
  "email_result recipients subject body attachment =
     (case recipients_join recipients '', '' of
        Inl e \<Rightarrow> Inl e
      | Inr r \<Rightarrow>
     (case ToString subject of
        Inl e \<Rightarrow> Inl e
      | Inr s \<Rightarrow>
     (case ToString body of
        Inl e \<Rightarrow> Inl e
      | Inr b \<Rightarrow>
     (case ToString (if js_truthy attachment then attachment else JStr ''none'') of
        Inl e \<Rightarrow> Inl e
      | Inr a \<Rightarrow>
          Inr (''Email sent to '' @ r @ '' with subject: '' @ s @ '' and body: '' @ b
               @ ''. Attachment: '' @ a)))))"

text \<open>
  The body of the \<open>try\<close> block of \<open>execute\<close>. The transporter that
  \<open>nodemailer.createTransport\<close> returns for the service and the account is outside the
  sources: its \<open>sendMail\<close> is a parameter, given by how its promise settles on the mail
  options; a rejection of nodemailer carries an error object. So does every other
  failure of the body, which is a \<open>TypeError\<close> of the runtime. The environment variable
  read for the sender is a parameter too.
\<close>

definition EmailSenderTool_try ::
  "string option \<Rightarrow> (js_value \<Rightarrow> (js_value, js_error) promise) \<Rightarrow> js_value \<Rightarrow>
   (js_value, js_error) promise" where
  "EmailSenderTool_try EMAIL_USER sendMail a =
     (case destructure_args a of
        Inl e \<Rightarrow> Rejected e
      | Inr (recipients, subject, body, attachment) \<Rightarrow>
     (case recipients_join recipients '', '' of
        Inl e \<Rightarrow> Rejected e
      | Inr to \<Rightarrow>
     (let mailOptions = JObj
            [(''from'', JStr (email_from EMAIL_USER)),
             (''to'', JStr to),
             (''subject'', subject),
             (''text'', body),
             (''attachments'',
                if js_truthy attachment
                then JArr [JObj [(''filename'', JStr ''attachment''), (''path'', attachment)]]
                else JArr [])]
      in case sendMail mailOptions of
           Rejected e \<Rightarrow> Rejected e
         | Fulfilled info \<Rightarrow>
             (case email_result recipients subject body attachment of
                Inl e \<Rightarrow> Rejected e
              | Inr result \<Rightarrow> Fulfilled (JStr result)))))"

text \<open>\<open>execute\<close>: the \<open>catch\<close> replaces the error of the body by a new \<open>Error\<close>.\<close>

definition EmailSenderTool_execute ::
  "string option \<Rightarrow> (js_value \<Rightarrow> (js_value, js_error) promise) \<Rightarrow> js_value \<Rightarrow>
   (js_value, js_thrown) promise" where
  "EmailSenderTool_execute EMAIL_USER sendMail a =
     (case EmailSenderTool_try EMAIL_USER sendMail a of
        Fulfilled result \<Rightarrow> Fulfilled result
      | Rejected error \<Rightarrow>
          Rejected (ThrownError (Error (''Failed to send email: '' @ message error))))"

definition EmailSenderTool_getDeclaration :: js_value where
  "EmailSenderTool_getDeclaration =
     JObj [(''name'', JStr ''emailSender''),
           (''description'', JStr ''Sends an email to one or more recipients.''),
           (''parameters'', JObj
              [(''type'', JStr ''object''),
               (''properties'', JObj
                  [(''recipients'', JObj
                      [(''type'', JStr ''array''),
                       (''items'', JObj [(''type'', JStr ''string''),
                                          (''format'', JStr ''email'')]),
                       (''description'',
                          JStr ''An array of email addresses to send the email to.'')]),
                   (''subject'', JObj
                      [(''type'', JStr ''string''),
                       (''description'', JStr ''The subject line of the email.'')]),
                   (''body'', JObj
                      [(''type'', JStr ''string''),
                       (''description'', JStr ''The content of the email.'')]),
                   (''attachment'', JObj
                      [(''type'', JStr ''string''),
                       (''description'',
                          JStr ''File to be attached, must be a URL or a base64 encoded string.'')])]),
               (''required'', JArr [JStr ''recipients'', JStr ''subject'', JStr ''body''])])]"

text \<open>An instance of the class, as \<open>new EmailSenderTool()\<close> builds it.\<close>

definition EmailSenderTool ::
  "string option \<Rightarrow> (js_value \<Rightarrow> (js_value, js_error) promise) \<Rightarrow> tool_value" where
  "EmailSenderTool EMAIL_USER sendMail =
     Instance \<lparr>getDeclaration = Method (Inr EmailSenderTool_getDeclaration),
               execute = Method (EmailSenderTool_execute EMAIL_USER sendMail)\<rparr>"

section \<open>The default tools\<close>

text \<open>
  \<open>registerDefaultTools\<close> registers one new instance of each of fourteen classes.
  Thirteen of the classes are outside the sources: \<open>new_tool\<close> gives the instance
  that \<open>new\<close> builds for each of them, by the name of the class. The constructor of
  \<open>ToolManager\<close> starts from the empty map and throws what \<open>registerDefaultTools\<close>
  throws.
\<close>

definition registerDefaultTools ::
  "(string \<Rightarrow> tool_value) \<Rightarrow> string option \<Rightarrow>
   (js_value \<Rightarrow> (js_value, js_error) promise) \<Rightarrow>
   tool_value ToolManager \<Rightarrow> (js_error + unit) \<times> tool_value ToolManager" where
  "registerDefaultTools new_tool EMAIL_USER sendMail this =
     registerTools
       [(''googleSearch'', new_tool ''GoogleSearchTool''),
        (''weather'', new_tool ''WeatherTool''),
        (''documentSaver'', new_tool ''DocumentSaverTool''),
        (''emailSender'', EmailSenderTool EMAIL_USER sendMail),
        (''calculator'', new_tool ''CalculatorTool''),
        (''unitConverter'', new_tool ''UnitConverterTool''),
        (''timeConverter'', new_tool ''TimeConverterTool''),
        (''currencyConverter'', new_tool ''CurrencyConverterTool''),
        (''dateCalculator'', new_tool ''DateCalculatorTool''),
        (''textSummarizer'', new_tool ''TextSummarizerTool''),
        (''textTranslator'', new_tool ''TextTranslatorTool''),
        (''randomGenerator'', new_tool ''RandomGeneratorTool''),
        (''passwordGenerator'', new_tool ''PasswordGeneratorTool''),
        (''listGenerator'', new_tool ''ListGeneratorTool'')]
       this"

definition ToolManager_constructor ::
  "(string \<Rightarrow> tool_value) \<Rightarrow> string option \<Rightarrow>
   (js_value \<Rightarrow> (js_value, js_error) promise) \<Rightarrow>
   (js_error + unit) \<times> tool_value ToolManager" where
  "ToolManager_constructor new_tool EMAIL_USER sendMail =
     registerDefaultTools new_tool EMAIL_USER sendMail new_ToolManager"

section \<open>Registration\<close>

text \<open>Setting a key that the map does not hold appends the entry.\<close>

lemma Map_set_absent: "\<not> Map_has m k \<Longrightarrow> Map_set m k v = m @ [(k, v)]"
  by (induction m) (auto simp: Map_has_def)

lemma registerTool_bound:
  "Map_has (tools this) nm \<Longrightarrow>
   registerTool nm v this =
     (Inl (ApplicationError (''Tool '' @ nm @ '' is already registered'') INVALID_STATE), this)"
  by (simp add: registerTool_def)

lemma registerTool_unbound:
  "\<not> Map_has (tools this) nm \<Longrightarrow>
   registerTool nm v this = (Inr (), this\<lparr>tools := tools this @ [(nm, v)]\<rparr>)"
  by (simp add: registerTool_def Map_set_absent)

text \<open>
  A call that returns found the name free and appended the entry; a run of calls that
  returns appended all of its entries, in order, under names that are distinct and were
  free before the run.
\<close>

lemma registerTool_Inr:
  assumes "registerTool nm v this = (Inr u, this')"
  shows "\<not> Map_has (tools this) nm"
    and "this' = this\<lparr>tools := tools this @ [(nm, v)]\<rparr>"
proof -
  show absent: "\<not> Map_has (tools this) nm"
    using assms by (auto simp: registerTool_def split: if_splits)
  show "this' = this\<lparr>tools := tools this @ [(nm, v)]\<rparr>"
    using assms registerTool_unbound [OF absent, of v] by simp
qed

lemma registerTools_Inr:
  "registerTools calls this = (Inr u, this') \<Longrightarrow>
   this' = this\<lparr>tools := tools this @ calls\<rparr> \<and>
   distinct (map fst calls) \<and>
   (\<forall>c \<in> set calls. \<not> Map_has (tools this) (fst c))"
proof (induction calls arbitrary: this)
  case Nil
  then show ?case by simp
next
  case (Cons c calls)
  obtain nm v where c: "c = (nm, v)" by (cases c)
  obtain r mid where first: "registerTool nm v this = (r, mid)"
    by (cases "registerTool nm v this")
  from Cons.prems c first obtain u' where r: "r = Inr u'" and
    rest: "registerTools calls mid = (Inr u, this')"
    by (cases r) auto
  from first r have absent: "\<not> Map_has (tools this) nm"
    by (simp add: registerTool_Inr(1))
  from first r have mid: "mid = this\<lparr>tools := tools this @ [(nm, v)]\<rparr>"
    by (simp add: registerTool_Inr(2))
  note IH = Cons.IH [OF rest]
  from IH have this': "this' = mid\<lparr>tools := tools mid @ calls\<rparr>"
    by (rule conjunct1)
  from IH have dist: "distinct (map fst calls)"
    by simp
  from IH have fresh: "\<forall>c \<in> set calls. \<not> Map_has (tools mid) (fst c)"
    by simp
  have "this' = this\<lparr>tools := tools this @ c # calls\<rparr>"
    using this' mid c by simp
  moreover have "distinct (map fst (c # calls))"
    using dist fresh mid c by (auto simp: Map_has_def)
  moreover have "\<forall>c' \<in> set (c # calls). \<not> Map_has (tools this) (fst c')"
    using fresh absent mid c by (auto simp: Map_has_def)
  ultimately show ?case by simp
qed

text \<open>
  C3. After every sequence of \<open>registerTool\<close> calls that a manager has accepted,
  registering a second tool under a name that the sequence has bound throws an
  \<open>ApplicationError\<close> with the message \<open>Tool <name> is already registered\<close> and the
  code \<open>ErrorCodes.INVALID_STATE\<close>; the manager after the failed call is the manager
  before it, and the name is still bound to the first tool.
\<close>

theorem registerTool_duplicate:
  assumes calls: "registerTools calls start = (Inr (), this)"
    and first: "(nm, first) \<in> set calls"
  shows "registerTool nm second this =
           (Inl (ApplicationError (''Tool '' @ nm @ '' is already registered'') INVALID_STATE),
            this) \<and>
         Map_get (tools (snd (registerTool nm second this))) nm = Some first"
proof -
  note run = registerTools_Inr [OF calls]
  from run have "this = start\<lparr>tools := tools start @ calls\<rparr>"
    by (rule conjunct1)
  then have entries: "tools this = tools start @ calls"
    by simp
  from run have dist: "distinct (map fst calls)"
    by simp
  from run first have "\<not> Map_has (tools start) nm"
    by force
  then have fresh: "map_of (tools start) nm = None"
    by (simp add: Map_has_def map_of_eq_None_iff)
  from first entries have bound: "Map_has (tools this) nm"
    by (force simp: Map_has_def)
  have "map_of calls nm = Some first"
    using first dist by simp
  then have get: "Map_get (tools this) nm = Some first"
    using fresh by (simp add: Map_get_def entries map_add_def)
  show ?thesis
    using registerTool_bound [OF bound, of second] get by simp
qed

text \<open>Two registrations on a new manager, then a second \<open>calc\<close>.\<close>

theorem registerTool_duplicate_witness:
  "registerTools
     [(''calc'', Instance \<lparr>getDeclaration = Method (Inr (JStr ''first'')),
                           execute = Value JUndefined\<rparr>),
      (''echo'', Instance \<lparr>getDeclaration = Value JUndefined, execute = Value JUndefined\<rparr>)]
     new_ToolManager =
     (Inr (),
      \<lparr>tools =
         [(''calc'', Instance \<lparr>getDeclaration = Method (Inr (JStr ''first'')),
                               execute = Value JUndefined\<rparr>),
          (''echo'', Instance \<lparr>getDeclaration = Value JUndefined,
                               execute = Value JUndefined\<rparr>)],
       executed = []\<rparr>) \<and>
   (''calc'', Instance \<lparr>getDeclaration = Method (Inr (JStr ''first'')),
                        execute = Value JUndefined\<rparr>)
     \<in> set [(''calc'', Instance \<lparr>getDeclaration = Method (Inr (JStr ''first'')),
                                  execute = Value JUndefined\<rparr>),
             (''echo'', Instance \<lparr>getDeclaration = Value JUndefined,
                                  execute = Value JUndefined\<rparr>)] \<and>
   registerTool ''calc''
     (Instance \<lparr>getDeclaration = Method (Inr (JStr ''second'')), execute = Value JUndefined\<rparr>)
     \<lparr>tools =
        [(''calc'', Instance \<lparr>getDeclaration = Method (Inr (JStr ''first'')),
                              execute = Value JUndefined\<rparr>),
         (''echo'', Instance \<lparr>getDeclaration = Value JUndefined,
                              execute = Value JUndefined\<rparr>)],
      executed = []\<rparr> =
     (Inl (ApplicationError ''Tool calc is already registered'' INVALID_STATE),
      \<lparr>tools =
         [(''calc'', Instance \<lparr>getDeclaration = Method (Inr (JStr ''first'')),
                               execute = Value JUndefined\<rparr>),
          (''echo'', Instance \<lparr>getDeclaration = Value JUndefined,
                               execute = Value JUndefined\<rparr>)],
       executed = []\<rparr>) \<and>
   Map_get (tools (snd (registerTool ''calc''
     (Instance \<lparr>getDeclaration = Method (Inr (JStr ''second'')), execute = Value JUndefined\<rparr>)
     \<lparr>tools =
        [(''calc'', Instance \<lparr>getDeclaration = Method (Inr (JStr ''first'')),
                              execute = Value JUndefined\<rparr>),
         (''echo'', Instance \<lparr>getDeclaration = Value JUndefined,
                              execute = Value JUndefined\<rparr>)],
      executed = []\<rparr>))) ''calc'' =
     Some (Instance \<lparr>getDeclaration = Method (Inr (JStr ''first'')),
                     execute = Value JUndefined\<rparr>)"
  (is "?run \<and> ?mem \<and> ?throws \<and> ?kept")
proof -
  have run: ?run
    by (simp add: registerTool_def new_ToolManager_def Map_has_def)
  have mem: ?mem
    by simp
  note duplicate = registerTool_duplicate
    [OF run mem,
     of "Instance \<lparr>getDeclaration = Method (Inr (JStr ''second'')),
                   execute = Value JUndefined\<rparr>"]
  from duplicate have throws: ?throws
    by simp
  from duplicate have kept: ?kept
    by (rule conjunct2)
  from run mem throws kept show ?thesis
    by (intro conjI)
qed

text \<open>
  C9. \<open>registerTool\<close> does not look at the tool instance: for every name that is not
  bound and every value of any type, the call returns, the value is appended under the
  name as the last entry, and a lookup of the name finds that value.
\<close>

theorem registerTool_no_validation:
  assumes "\<not> Map_has (tools this) nm"
  shows "registerTool nm v this = (Inr (), this\<lparr>tools := tools this @ [(nm, v)]\<rparr>) \<and>
         Map_get (tools (snd (registerTool nm v this))) nm = Some v"
proof -
  have "map_of (tools this) nm = None"
    using assms by (simp add: Map_has_def map_of_eq_None_iff)
  then have "Map_get (tools this @ [(nm, v)]) nm = Some v"
    by (simp add: Map_get_def map_add_def)
  then show ?thesis
    using registerTool_unbound [OF assms, of v] by simp
qed

text \<open>An object with neither \<open>getDeclaration\<close> nor \<open>execute\<close> is registered like any other.\<close>

theorem registerTool_no_validation_witness:
  "\<not> Map_has
       (tools \<lparr>tools = [(''calc'', Instance \<lparr>getDeclaration = Method (Inr JNull),
                                              execute = Value JUndefined\<rparr>)],
               executed = []\<rparr>)
       ''broken'' \<and>
   registerTool ''broken''
     (Instance \<lparr>getDeclaration = Value JUndefined, execute = Value JUndefined\<rparr>)
     \<lparr>tools = [(''calc'', Instance \<lparr>getDeclaration = Method (Inr JNull),
                                    execute = Value JUndefined\<rparr>)],
      executed = []\<rparr> =
   (Inr (),
    \<lparr>tools = [(''calc'', Instance \<lparr>getDeclaration = Method (Inr JNull),
                                    execute = Value JUndefined\<rparr>),
              (''broken'', Instance \<lparr>getDeclaration = Value JUndefined,
                                      execute = Value JUndefined\<rparr>)],
     executed = []\<rparr>)"
  (is "?absent \<and> ?registered")
proof -
  have absent: ?absent
    by (simp add: Map_has_def)
  from registerTool_no_validation
    [OF absent,
     of "Instance \<lparr>getDeclaration = Value JUndefined, execute = Value JUndefined\<rparr>"]
  have ?registered
    by simp
  with absent show ?thesis
    by (rule conjI)
qed

section \<open>Declarations\<close>

text \<open>
  The callback appends to whatever has been pushed so far, so the loop over a list of
  entries concatenates what each entry pushes on its own, up to the first entry that
  throws.
\<close>

lemma push_declaration_acc:
  "push_declaration acc nm t =
     (case push_declaration [] nm t of Inl thrown \<Rightarrow> Inl thrown | Inr r \<Rightarrow> Inr (acc @ r))"
  by (simp add: push_declaration_def split: sum.split)

lemma forEach_tool_acc:
  "forEach_tool xs acc =
     (case forEach_tool xs [] of Inl thrown \<Rightarrow> Inl thrown | Inr r \<Rightarrow> Inr (acc @ r))"
proof (induction xs arbitrary: acc)
  case Nil
  show ?case by simp
next
  case (Cons p xs)
  obtain nm t where p: "p = (nm, t)" by (cases p)
  show ?case
  proof (cases "push_declaration [] nm t")
    case (Inl thrown)
    then show ?thesis
      using push_declaration_acc [of acc nm t] by (simp add: p)
  next
    case (Inr r)
    then have pushed: "push_declaration acc nm t = Inr (acc @ r)"
      using push_declaration_acc [of acc nm t] by simp
    show ?thesis
    proof (cases "forEach_tool xs []")
      case (Inl thrown)
      then show ?thesis
        using Cons.IH [of "acc @ r"] Cons.IH [of r] Inr pushed by (simp add: p)
    next
      case rest: (Inr rs)
      then show ?thesis
        using Cons.IH [of "acc @ r"] Cons.IH [of r] Inr pushed by (simp add: p)
    qed
  qed
qed

lemma forEach_tool_Cons:
  "forEach_tool ((nm, t) # xs) [] =
     (case push_declaration [] nm t of
        Inl thrown \<Rightarrow> Inl thrown
      | Inr r \<Rightarrow> (case forEach_tool xs [] of
                    Inl thrown \<Rightarrow> Inl thrown
                  | Inr rs \<Rightarrow> Inr (r @ rs)))"
proof (cases "push_declaration [] nm t")
  case (Inl thrown)
  then show ?thesis by simp
next
  case (Inr r)
  then show ?thesis
    using forEach_tool_acc [of xs r] by simp
qed

lemma forEach_tool_append:
  "forEach_tool (xs @ ys) [] =
     (case forEach_tool xs [] of
        Inl thrown \<Rightarrow> Inl thrown
      | Inr a \<Rightarrow> (case forEach_tool ys [] of
                    Inl thrown \<Rightarrow> Inl thrown
                  | Inr b \<Rightarrow> Inr (a @ b)))"
proof (induction xs)
  case Nil
  show ?case by (simp split: sum.split)
next
  case (Cons p xs)
  obtain nm t where p: "p = (nm, t)" by (cases p)
  show ?case
    using Cons.IH
    by (simp add: p forEach_tool_Cons del: forEach_tool.simps split: sum.split)
qed

lemma length_push_declaration:
  "push_declaration [] nm t = Inr r \<Longrightarrow> length r \<le> 1"
  by (auto simp: push_declaration_def split: sum.splits if_splits)

lemma length_forEach_tool:
  "forEach_tool xs [] = Inr out \<Longrightarrow> length out \<le> length xs"
proof (induction xs arbitrary: out)
  case Nil
  then show ?case by simp
next
  case (Cons p xs)
  obtain nm t where p: "p = (nm, t)" by (cases p)
  from Cons.prems obtain r rs where
    r: "push_declaration [] nm t = Inr r" and rs: "forEach_tool xs [] = Inr rs" and
    out: "out = r @ rs"
    by (auto simp: p forEach_tool_Cons simp del: forEach_tool.simps split: sum.splits)
  from length_push_declaration [OF r] Cons.IH [OF rs] show ?case
    by (simp add: out)
qed

text \<open>
  C4. In the output of \<open>getToolDeclarations\<close> the record of a registered tool whose
  \<open>getDeclaration\<close> returns stands between the records of the entries before it and
  those of the entries after it; for the tool registered as \<open>weather\<close> it is
  \<open>{functionDeclarations: declaration}\<close>, and for a tool registered under any other
  name it is the one-key object \<open>{[name]: declaration}\<close>. There is no output only when
  an entry before or after it throws.
\<close>

theorem getToolDeclarations_record_shape:
  assumes entries: "tools this = before @ (nm, t) # after"
    and decl: "tool_getDeclaration t = Inr (Method (Inr declaration))"
  shows "fst (getToolDeclarations this) =
           (case fst (getToolDeclarations (this\<lparr>tools := before\<rparr>)) of
              Inl thrown \<Rightarrow> Inl thrown
            | Inr records_before \<Rightarrow>
                (case fst (getToolDeclarations (this\<lparr>tools := after\<rparr>)) of
                   Inl thrown \<Rightarrow> Inl thrown
                 | Inr records_after \<Rightarrow>
                     Inr (records_before @
                          [if nm = ''weather''
                           then JObj [(''functionDeclarations'', declaration)]
                           else JObj [(nm, declaration)]] @
                          records_after)))"
proof -
  define r where "r = (if nm = ''weather'' then JObj [(''functionDeclarations'', declaration)]
                       else JObj [(nm, declaration)])"
  have pushed: "push_declaration [] nm t = Inr [r]"
    using decl by (simp add: push_declaration_def r_def)
  show ?thesis
  proof (cases "forEach_tool before []")
    case (Inl thrown)
    then show ?thesis
      by (simp add: getToolDeclarations_def entries forEach_tool_append)
  next
    case records_before: (Inr a)
    show ?thesis
    proof (cases "forEach_tool after []")
      case (Inl thrown)
      with records_before show ?thesis
        by (simp add: getToolDeclarations_def entries forEach_tool_append forEach_tool_Cons
            pushed del: forEach_tool.simps)
    next
      case records_after: (Inr b)
      with records_before show ?thesis
        by (simp add: getToolDeclarations_def entries forEach_tool_append forEach_tool_Cons
            pushed r_def del: forEach_tool.simps)
    qed
  qed
qed

text \<open>A calculator and the weather tool, registered in this order.\<close>

theorem getToolDeclarations_record_shape_witness:
  "tool_getDeclaration
     (Instance \<lparr>getDeclaration = Method (Inr (JStr ''w'')), execute = Value JUndefined\<rparr>) =
     Inr (Method (Inr (JStr ''w''))) \<and>
   fst (getToolDeclarations
     \<lparr>tools = [(''calculator'',
                 Instance \<lparr>getDeclaration = Method (Inr (JStr ''c'')),
                           execute = Value JUndefined\<rparr>),
               (''weather'',
                 Instance \<lparr>getDeclaration = Method (Inr (JStr ''w'')),
                           execute = Value JUndefined\<rparr>)],
      executed = []\<rparr>) =
   Inr [JObj [(''calculator'', JStr ''c'')], JObj [(''functionDeclarations'', JStr ''w'')]]"
  (is "?decl \<and> ?records")
proof -
  have decl: ?decl
    by simp
  have ?records
    using getToolDeclarations_record_shape
      [of "\<lparr>tools = [(''calculator'',
                        Instance \<lparr>getDeclaration = Method (Inr (JStr ''c'')),
                                  execute = Value JUndefined\<rparr>),
                      (''weather'',
                        Instance \<lparr>getDeclaration = Method (Inr (JStr ''w'')),
                                  execute = Value JUndefined\<rparr>)],
            executed = []\<rparr>"
          "[(''calculator'',
              Instance \<lparr>getDeclaration = Method (Inr (JStr ''c'')),
                        execute = Value JUndefined\<rparr>)]"
          "''weather''"
          "Instance \<lparr>getDeclaration = Method (Inr (JStr ''w'')), execute = Value JUndefined\<rparr>"
          "[]" "JStr ''w''"]
    by (simp add: getToolDeclarations_def push_declaration_def)
  with decl show ?thesis
    by (rule conjI)
qed

text \<open>
  C8, as the code has it. A registered value that is neither \<open>undefined\<close> nor \<open>null\<close>
  and whose \<open>getDeclaration\<close> member is missing or otherwise falsy is skipped: what
  \<open>getToolDeclarations\<close> does is what it does on the map without that entry, so the
  entry adds no record and throws nothing, and an output has fewer records than the map
  has tools.
\<close>

theorem getToolDeclarations_skips:
  assumes entries: "tools this = before @ (nm, t) # after"
    and falsy: "tool_getDeclaration t = Inr m" "\<not> member_truthy m"
  shows "fst (getToolDeclarations this) =
           fst (getToolDeclarations (this\<lparr>tools := before @ after\<rparr>)) \<and>
         (\<forall>out. fst (getToolDeclarations this) = Inr out \<longrightarrow>
                length out < length (tools this))"
proof -
  have skip: "push_declaration [] nm t = Inr []"
    using falsy by (simp add: push_declaration_def)
  have same: "forEach_tool (before @ (nm, t) # after) [] = forEach_tool (before @ after) []"
    by (simp add: forEach_tool_append forEach_tool_Cons skip del: forEach_tool.simps
        split: sum.split)
  have "length out < length (before @ (nm, t) # after)"
    if "forEach_tool (before @ (nm, t) # after) [] = Inr out" for out
    using length_forEach_tool [of "before @ after" out] that same by simp
  then show ?thesis
    using same by (simp add: getToolDeclarations_def entries)
qed

text \<open>Three registered tools, the second without \<open>getDeclaration\<close>: two records.\<close>

theorem getToolDeclarations_skips_witness:
  "tool_getDeclaration
     (Instance \<lparr>getDeclaration = Value JUndefined, execute = Value JUndefined\<rparr>) =
     Inr (Value JUndefined) \<and>
   \<not> member_truthy (Value JUndefined :: (js_thrown + js_value) member) \<and>
   fst (getToolDeclarations
     \<lparr>tools = [(''calculator'',
                 Instance \<lparr>getDeclaration = Method (Inr (JStr ''c'')),
                           execute = Value JUndefined\<rparr>),
               (''broken'',
                 Instance \<lparr>getDeclaration = Value JUndefined, execute = Value JUndefined\<rparr>),
               (''weather'',
                 Instance \<lparr>getDeclaration = Method (Inr (JStr ''w'')),
                           execute = Value JUndefined\<rparr>)],
      executed = []\<rparr>) =
   Inr [JObj [(''calculator'', JStr ''c'')], JObj [(''functionDeclarations'', JStr ''w'')]]"
  (is "?read \<and> ?falsy \<and> ?records")
proof -
  have "read": ?read
    by simp
  have falsy: ?falsy
    by simp
  have ?records
    using getToolDeclarations_skips
      [of "\<lparr>tools = [(''calculator'',
                        Instance \<lparr>getDeclaration = Method (Inr (JStr ''c'')),
                                  execute = Value JUndefined\<rparr>),
                      (''broken'',
                        Instance \<lparr>getDeclaration = Value JUndefined,
                                  execute = Value JUndefined\<rparr>),
                      (''weather'',
                        Instance \<lparr>getDeclaration = Method (Inr (JStr ''w'')),
                                  execute = Value JUndefined\<rparr>)],
            executed = []\<rparr>"
          "[(''calculator'',
              Instance \<lparr>getDeclaration = Method (Inr (JStr ''c'')),
                        execute = Value JUndefined\<rparr>)]"
          "''broken''"
          "Instance \<lparr>getDeclaration = Value JUndefined, execute = Value JUndefined\<rparr>"
          "[(''weather'',
              Instance \<lparr>getDeclaration = Method (Inr (JStr ''w'')),
                        execute = Value JUndefined\<rparr>)]"
          "Value JUndefined", THEN conjunct1]
    by (simp add: getToolDeclarations_def push_declaration_def)
  with "read" falsy show ?thesis
    by (intro conjI)
qed

text \<open>
  Skipping, without an error, every instance that has no \<open>getDeclaration\<close> method is
  more than the guard does: it lets a member through that is truthy and not a function,
  and the call of it throws.
\<close>

theorem getToolDeclarations_skips_counterexample:
  "fst (getToolDeclarations
     (snd (registerTool ''broken'' (Plain (JObj [(''getDeclaration'', JNum ''5'')]))
             new_ToolManager))) =
   Inl (ThrownError (TypeError ''tool.getDeclaration is not a function''))"
  by (simp add: getToolDeclarations_def registerTool_def new_ToolManager_def Map_has_def
      push_declaration_def)

text \<open>
  C7. \<open>getToolDeclarations\<close> is read-only: the manager it leaves is the manager it was
  called on, so no entry changes and no call of \<open>execute\<close> is recorded; a second call
  does what the first did; and the outcome is the same whatever the \<open>execute\<close>
  members of the registered instances are.
\<close>

theorem getToolDeclarations_read_only:
  "snd (getToolDeclarations this) = this \<and>
   executed (snd (getToolDeclarations this)) = executed this \<and>
   getToolDeclarations (snd (getToolDeclarations this)) = getToolDeclarations this \<and>
   fst (getToolDeclarations
          (this\<lparr>tools := map (\<lambda>(nm, t). (nm, case t of
                                               Plain v \<Rightarrow> Plain v
                                             | Instance r \<Rightarrow> Instance (r\<lparr>execute := e nm r\<rparr>)))
                             (tools this)\<rparr>)) =
     fst (getToolDeclarations this)"
proof -
  have read: "tool_getDeclaration (case t of Plain v \<Rightarrow> Plain v
                                   | Instance r \<Rightarrow> Instance (r\<lparr>execute := e nm r\<rparr>)) =
              tool_getDeclaration t" for nm t
    by (cases t) simp_all
  have push: "push_declaration acc nm (case t of Plain v \<Rightarrow> Plain v
                                       | Instance r \<Rightarrow> Instance (r\<lparr>execute := e nm r\<rparr>)) =
              push_declaration acc nm t" for acc nm t
    by (simp add: push_declaration_def read)
  have "forEach_tool (map (\<lambda>(nm, t). (nm, case t of
                                               Plain v \<Rightarrow> Plain v
                                             | Instance r \<Rightarrow> Instance (r\<lparr>execute := e nm r\<rparr>)))
                          xs) acc =
        forEach_tool xs acc" for xs acc
  proof (induction xs arbitrary: acc)
    case Nil
    show ?case by simp
  next
    case (Cons p xs)
    obtain nm t where p: "p = (nm, t)" by (cases p)
    show ?case
    proof (cases "push_declaration acc nm t")
      case (Inl thrown)
      then show ?thesis by (simp add: p push)
    next
      case (Inr acc')
      then show ?thesis using Cons.IH [of acc'] by (simp add: p push)
    qed
  qed
  then show ?thesis
    by (simp add: getToolDeclarations_def)
qed

text \<open>Two registered tools and one earlier call on record: nothing of it changes.\<close>

theorem getToolDeclarations_read_only_witness:
  "getToolDeclarations
     \<lparr>tools = [(''calculator'',
                 Instance \<lparr>getDeclaration = Method (Inr (JStr ''c'')),
                           execute = Value JUndefined\<rparr>),
               (''weather'',
                 Instance \<lparr>getDeclaration = Method (Inr (JStr ''w'')),
                           execute = Value JUndefined\<rparr>)],
      executed = [(''weather'', JStr ''Monday'')]\<rparr> =
   (Inr [JObj [(''calculator'', JStr ''c'')], JObj [(''functionDeclarations'', JStr ''w'')]],
    \<lparr>tools = [(''calculator'',
                 Instance \<lparr>getDeclaration = Method (Inr (JStr ''c'')),
                           execute = Value JUndefined\<rparr>),
               (''weather'',
                 Instance \<lparr>getDeclaration = Method (Inr (JStr ''w'')),
                           execute = Value JUndefined\<rparr>)],
      executed = [(''weather'', JStr ''Monday'')]\<rparr>)"
  using getToolDeclarations_read_only
    [of "\<lparr>tools = [(''calculator'',
                      Instance \<lparr>getDeclaration = Method (Inr (JStr ''c'')),
                                execute = Value JUndefined\<rparr>),
                    (''weather'',
                      Instance \<lparr>getDeclaration = Method (Inr (JStr ''w'')),
                                execute = Value JUndefined\<rparr>)],
          executed = [(''weather'', JStr ''Monday'')]\<rparr>"]
  by (simp add: getToolDeclarations_def push_declaration_def)

text \<open>
  C6, as the code has it. When every registered value is neither \<open>undefined\<close> nor
  \<open>null\<close> and has a \<open>getDeclaration\<close> member that is falsy or a function that
  returns, \<open>getToolDeclarations\<close> returns one record for each registered tool whose
  member is such a function, in registration order, none of them twice, and no record for
  a tool whose member is falsy; when every member is such a function there are as many
  records as registered tools.
\<close>

theorem getToolDeclarations_one_per_declaring_tool:
  assumes wellformed:
    "\<forall>(nm, t) \<in> set (tools this).
       \<exists>m. tool_getDeclaration t = Inr m \<and>
           (\<not> member_truthy m \<or> (\<exists>declaration. m = Method (Inr declaration)))"
  shows "fst (getToolDeclarations this) =
           Inr (concat (map (\<lambda>(nm, t). case tool_getDeclaration t of
                                           Inr (Method (Inr declaration)) \<Rightarrow>
                                             [if nm = ''weather''
                                              then JObj [(''functionDeclarations'', declaration)]
                                              else JObj [(nm, declaration)]]
                                         | _ \<Rightarrow> [])
                            (tools this))) \<and>
         ((\<forall>(nm, t) \<in> set (tools this).
              \<exists>declaration. tool_getDeclaration t = Inr (Method (Inr declaration))) \<longrightarrow>
          (\<exists>out. fst (getToolDeclarations this) = Inr out \<and> length out = length (tools this)))"
proof -
  have shape: "forEach_tool xs [] =
     Inr (concat (map (\<lambda>(nm, t). case tool_getDeclaration t of
                                     Inr (Method (Inr declaration)) \<Rightarrow>
                                       [if nm = ''weather''
                                        then JObj [(''functionDeclarations'', declaration)]
                                        else JObj [(nm, declaration)]]
                                   | _ \<Rightarrow> []) xs))"
    if "\<forall>(nm, t) \<in> set xs.
          \<exists>m. tool_getDeclaration t = Inr m \<and>
              (\<not> member_truthy m \<or> (\<exists>declaration. m = Method (Inr declaration)))" for xs
    using that
  proof (induction xs)
    case Nil
    show ?case by simp
  next
    case (Cons p xs)
    obtain nm t where p: "p = (nm, t)" by (cases p)
    from Cons.prems p obtain m where m: "tool_getDeclaration t = Inr m"
      and ok: "\<not> member_truthy m \<or> (\<exists>declaration. m = Method (Inr declaration))"
      by auto
    from Cons.prems have rest: "\<forall>(nm, t) \<in> set xs.
          \<exists>m. tool_getDeclaration t = Inr m \<and>
              (\<not> member_truthy m \<or> (\<exists>declaration. m = Method (Inr declaration)))"
      by simp
    note IH = Cons.IH [OF rest]
    from ok show ?case
    proof
      assume falsy: "\<not> member_truthy m"
      then have "push_declaration [] nm t = Inr []"
        using m by (simp add: push_declaration_def)
      moreover have "(case tool_getDeclaration t of
                        Inr (Method (Inr declaration)) \<Rightarrow>
                          [if nm = ''weather''
                           then JObj [(''functionDeclarations'', declaration)]
                           else JObj [(nm, declaration)]]
                      | _ \<Rightarrow> []) = []"
        using m falsy by (cases m) simp_all
      ultimately show ?thesis
        using IH by (simp add: p forEach_tool_Cons del: forEach_tool.simps)
    next
      assume "\<exists>declaration. m = Method (Inr declaration)"
      then obtain d where d: "m = Method (Inr d)" ..
      then have "push_declaration [] nm t =
          Inr [if nm = ''weather'' then JObj [(''functionDeclarations'', d)]
               else JObj [(nm, d)]]"
        using m by (simp add: push_declaration_def)
      then show ?thesis
        using IH m d by (simp add: p forEach_tool_Cons del: forEach_tool.simps)
    qed
  qed
  have count: "length (concat (map (\<lambda>(nm, t). case tool_getDeclaration t of
                                     Inr (Method (Inr declaration)) \<Rightarrow>
                                       [if nm = ''weather''
                                        then JObj [(''functionDeclarations'', declaration)]
                                        else JObj [(nm, declaration)]]
                                   | _ \<Rightarrow> []) xs)) = length xs"
    if "\<forall>(nm, t) \<in> set xs.
          \<exists>declaration. tool_getDeclaration t = Inr (Method (Inr declaration))" for xs
    using that by (induction xs) auto
  show ?thesis
    using shape [OF wellformed] count [of "tools this"]
    by (simp add: getToolDeclarations_def)
qed

text \<open>Three registered tools, the second without \<open>getDeclaration\<close>: two records.\<close>

theorem getToolDeclarations_one_per_declaring_tool_witness:
  "(\<exists>m. tool_getDeclaration
          (Instance \<lparr>getDeclaration = Value JUndefined, execute = Value JUndefined\<rparr>) = Inr m \<and>
        \<not> member_truthy m) \<and>
   fst (getToolDeclarations
     \<lparr>tools = [(''calculator'',
                 Instance \<lparr>getDeclaration = Method (Inr (JStr ''c'')),
                           execute = Value JUndefined\<rparr>),
               (''broken'',
                 Instance \<lparr>getDeclaration = Value JUndefined, execute = Value JUndefined\<rparr>),
               (''weather'',
                 Instance \<lparr>getDeclaration = Method (Inr (JStr ''w'')),
                           execute = Value JUndefined\<rparr>)],
      executed = []\<rparr>) =
   Inr [JObj [(''calculator'', JStr ''c'')], JObj [(''functionDeclarations'', JStr ''w'')]]"
  (is "?falsy \<and> ?records")
proof -
  have falsy: ?falsy
    by simp
  have wellformed:
    "\<forall>(nm, t) \<in> set (tools
        \<lparr>tools = [(''calculator'',
                    Instance \<lparr>getDeclaration = Method (Inr (JStr ''c'')),
                              execute = Value JUndefined\<rparr>),
                  (''broken'',
                    Instance \<lparr>getDeclaration = Value JUndefined,
                              execute = Value JUndefined\<rparr>),
                  (''weather'',
                    Instance \<lparr>getDeclaration = Method (Inr (JStr ''w'')),
                              execute = Value JUndefined\<rparr>)],
         executed = []\<rparr>).
       \<exists>m. tool_getDeclaration t = Inr m \<and>
           (\<not> member_truthy m \<or> (\<exists>declaration. m = Method (Inr declaration)))"
    by simp
  have ?records
    using getToolDeclarations_one_per_declaring_tool [OF wellformed, THEN conjunct1]
    by simp
  with falsy show ?thesis
    by (rule conjI)
qed

text \<open>
  One record for every registered tool of every manager, as the spec words it, does not
  hold after one registration of a tool without \<open>getDeclaration\<close>: one tool, no record.
\<close>

theorem getToolDeclarations_omits_counterexample:
  "fst (getToolDeclarations
      (snd (registerTool ''calculator''
              (Instance \<lparr>getDeclaration = Value JUndefined,
                         execute = Method (\<lambda>a. Fulfilled a)\<rparr>)
              new_ToolManager))) = Inr [] \<and>
   length (tools
      (snd (registerTool ''calculator''
              (Instance \<lparr>getDeclaration = Value JUndefined,
                         execute = Method (\<lambda>a. Fulfilled a)\<rparr>)
              new_ToolManager))) = 1"
  by (simp add: getToolDeclarations_def registerTool_def new_ToolManager_def Map_has_def
      push_declaration_def)

section \<open>Dispatch\<close>

text \<open>What \<open>handleToolCall\<close> does once the lookup has found a truthy value.\<close>

lemma handleToolCall_found:
  assumes "Map_get (tools this) (if name fc = ''get_weather_on_date'' then ''weather'' else name fc)
             = Some t"
    and "tool_truthy t"
  shows "handleToolCall fc this =
     (case await_execute (if name fc = ''get_weather_on_date'' then ''weather'' else name fc)
             t (args fc) this of
        (Fulfilled result, this') \<Rightarrow>
          (Fulfilled (functionResponses (JObj [(''output'', result)]) (id_call fc)), this')
      | (Rejected error, this') \<Rightarrow>
          (case error_message error of
             Inl thrown \<Rightarrow> (Rejected thrown, this')
           | Inr m \<Rightarrow>
               (Fulfilled (functionResponses (JObj [(''error'', m)]) (id_call fc)), this')))"
  using assms by (simp add: handleToolCall_def Let_def)

text \<open>
  The three ways a call of a registered \<open>execute\<close> ends: the tool fulfills, and the
  envelope carries \<open>{output: result}\<close>; the tool rejects with a value whose \<open>message\<close>
  can be read, and the envelope carries \<open>{error: message}\<close>; the tool rejects with
  \<open>undefined\<close> or \<open>null\<close>, and the promise of \<open>handleToolCall\<close> is rejected with
  the \<open>TypeError\<close> of the read.
\<close>

lemma handleToolCall_settles:
  assumes found:
    "Map_get (tools this) (if name fc = ''get_weather_on_date'' then ''weather'' else name fc)
       = Some t"
    and truthy: "tool_truthy t"
    and callable: "tool_execute t = Inr (Method f)"
  shows "fst (handleToolCall fc this) =
     (case f (args fc) of
        Fulfilled result \<Rightarrow>
          Fulfilled (functionResponses (JObj [(''output'', result)]) (id_call fc))
      | Rejected error \<Rightarrow>
          (case error_message error of
             Inl thrown \<Rightarrow> Rejected thrown
           | Inr m \<Rightarrow> Fulfilled (functionResponses (JObj [(''error'', m)]) (id_call fc))))"
proof (cases "f (args fc)")
  case (Fulfilled result)
  then show ?thesis
    by (simp add: handleToolCall_found [OF found truthy] await_execute_def callable)
next
  case (Rejected error)
  then show ?thesis
    by (cases "error_message error")
      (simp_all add: handleToolCall_found [OF found truthy] await_execute_def callable)
qed

lemma handleToolCall_error_object:
  assumes found:
    "Map_get (tools this) (if name fc = ''get_weather_on_date'' then ''weather'' else name fc)
       = Some t"
    and truthy: "tool_truthy t"
    and callable: "tool_execute t = Inr (Method f)"
    and rejects: "f (args fc) = Rejected (ThrownError e)"
  shows "fst (handleToolCall fc this) =
           Fulfilled (JObj [(''functionResponses'',
                            JArr [JObj [(''response'', JObj [(''error'', JStr (message e))]),
                                        (''id'', id_call fc)]])])"
  using handleToolCall_settles [OF found truthy callable] rejects
  by (simp add: functionResponses_def)

text \<open>
  C1. A registered tool whose \<open>execute\<close> rejects with \<open>undefined\<close> (as
  \<open>Promise.reject()\<close> does) is resolved by the name \<open>calc\<close>; the \<open>catch\<close> of
  \<open>handleToolCall\<close> reads \<open>error.message\<close>, that read throws, and the promise of
  \<open>handleToolCall\<close> is rejected: the failure of the tool leaves \<open>handleToolCall\<close> as
  an exception and no envelope is produced. For every other outcome of \<open>execute\<close> the
  two lemmas above give the envelope with the identifier of the request.
\<close>

theorem handleToolCall_rejects_on_undefined_rejection:
  "fst (handleToolCall \<lparr>name = ''calc'', args = JObj [], id_call = JStr ''x1''\<rparr>
          (snd (registerTool ''calc''
                  (Instance \<lparr>getDeclaration = Method (Inr (JStr ''calc'')),
                             execute = Method (\<lambda>a. Rejected (ThrownValue JUndefined))\<rparr>)
                  new_ToolManager))) =
     Rejected (ThrownError
       (TypeError ''Cannot read properties of undefined (reading 'message')''))"
  by (simp add: handleToolCall_def await_execute_def registerTool_def new_ToolManager_def
      Map_has_def Map_get_def Let_def)

text \<open>
  C2, as the code has it. For a request whose name is neither bound nor the alias
  \<open>get_weather_on_date\<close>, \<open>handleToolCall\<close> throws: its promise is rejected with an
  \<open>ApplicationError\<close> whose message is \<open>Unknown tool: <name>\<close> and whose code is
  \<open>ErrorCodes.INVALID_PARAMETER\<close>. No envelope is produced, no tool is executed and the
  manager is unchanged.
\<close>

theorem handleToolCall_unknown:
  assumes "name fc \<noteq> ''get_weather_on_date''" and "\<not> Map_has (tools this) (name fc)"
  shows "handleToolCall fc this =
           (Rejected (ThrownError
              (ApplicationError (''Unknown tool: '' @ name fc) INVALID_PARAMETER)), this)"
proof -
  have "Map_get (tools this) (name fc) = None"
    using assms(2) by (simp add: Map_has_def Map_get_def map_of_eq_None_iff)
  then show ?thesis
    using assms(1) by (simp add: handleToolCall_def)
qed

text \<open>The request \<open>doesNotExist\<close> on a manager that holds one other tool.\<close>

theorem handleToolCall_unknown_witness:
  "name \<lparr>name = ''doesNotExist'', args = JObj [], id_call = JStr ''x2''\<rparr>
     \<noteq> ''get_weather_on_date'' \<and>
   \<not> Map_has
       (tools \<lparr>tools = [(''calc'', Instance \<lparr>getDeclaration = Value JUndefined,
                                              execute = Value JUndefined\<rparr>)],
               executed = []\<rparr>)
       (name \<lparr>name = ''doesNotExist'', args = JObj [], id_call = JStr ''x2''\<rparr>) \<and>
   handleToolCall \<lparr>name = ''doesNotExist'', args = JObj [], id_call = JStr ''x2''\<rparr>
     \<lparr>tools = [(''calc'', Instance \<lparr>getDeclaration = Value JUndefined,
                                    execute = Value JUndefined\<rparr>)],
      executed = []\<rparr> =
   (Rejected (ThrownError (ApplicationError ''Unknown tool: doesNotExist'' INVALID_PARAMETER)),
    \<lparr>tools = [(''calc'', Instance \<lparr>getDeclaration = Value JUndefined,
                                    execute = Value JUndefined\<rparr>)],
      executed = []\<rparr>)"
  (is "?h1 \<and> ?h2 \<and> ?rejected")
proof -
  have h1: ?h1
    by simp
  have h2: ?h2
    by (simp add: Map_has_def)
  from handleToolCall_unknown [OF h1 h2] have ?rejected
    by simp
  with h1 h2 show ?thesis
    by (intro conjI)
qed

text \<open>
  A response that carries a failure, with no error thrown, as the spec words it, is not
  what that request gets: the promise is rejected.
\<close>

theorem handleToolCall_unknown_counterexample:
  "fst (handleToolCall \<lparr>name = ''doesNotExist'', args = JObj [], id_call = JStr ''x2''\<rparr>
          (snd (registerTool ''calc''
                  (Instance \<lparr>getDeclaration = Value JUndefined,
                             execute = Method (\<lambda>a. Fulfilled (JStr ''4''))\<rparr>)
                  new_ToolManager))) =
     Rejected (ThrownError (ApplicationError ''Unknown tool: doesNotExist'' INVALID_PARAMETER))"
  by (simp add: handleToolCall_def registerTool_def new_ToolManager_def Map_has_def Map_get_def)

text \<open>
  C5. When a tool is registered as \<open>weather\<close>, a request named
  \<open>get_weather_on_date\<close> does what the same request named \<open>weather\<close> does: the
  outcome and the manager afterwards are equal, the call recorded is the one of the
  \<open>execute\<close> of the \<open>weather\<close> tool on the arguments of the request, and the outcome
  is the one of that call, wrapped as for any registered tool.
\<close>

theorem handleToolCall_alias:
  assumes weather: "Map_get (tools this) ''weather'' = Some t"
    and truthy: "tool_truthy t"
  shows "handleToolCall (fc\<lparr>name := ''get_weather_on_date''\<rparr>) this =
           handleToolCall (fc\<lparr>name := ''weather''\<rparr>) this \<and>
         (\<forall>f. tool_execute t = Inr (Method f) \<longrightarrow>
            executed (snd (handleToolCall (fc\<lparr>name := ''get_weather_on_date''\<rparr>) this)) =
              executed this @ [(''weather'', args fc)] \<and>
            fst (handleToolCall (fc\<lparr>name := ''get_weather_on_date''\<rparr>) this) =
              (case f (args fc) of
                 Fulfilled result \<Rightarrow>
                   Fulfilled (functionResponses (JObj [(''output'', result)]) (id_call fc))
               | Rejected error \<Rightarrow>
                   (case error_message error of
                      Inl thrown \<Rightarrow> Rejected thrown
                    | Inr m \<Rightarrow>
                        Fulfilled (functionResponses (JObj [(''error'', m)]) (id_call fc)))))"
proof -
  obtain p this' where run: "await_execute ''weather'' t (args fc) this = (p, this')"
    by (cases "await_execute ''weather'' t (args fc) this")
  have same: "handleToolCall (fc\<lparr>name := ''get_weather_on_date''\<rparr>) this =
                handleToolCall (fc\<lparr>name := ''weather''\<rparr>) this"
  proof (cases p)
    case (Fulfilled result)
    with weather truthy run show ?thesis
      by (simp add: handleToolCall_def)
  next
    case (Rejected error)
    with weather truthy run show ?thesis
      by (cases "error_message error") (simp_all add: handleToolCall_def)
  qed
  have "executed (snd (handleToolCall (fc\<lparr>name := ''get_weather_on_date''\<rparr>) this)) =
          executed this @ [(''weather'', args fc)] \<and>
        fst (handleToolCall (fc\<lparr>name := ''get_weather_on_date''\<rparr>) this) =
          (case f (args fc) of
             Fulfilled result \<Rightarrow>
               Fulfilled (functionResponses (JObj [(''output'', result)]) (id_call fc))
           | Rejected error \<Rightarrow>
               (case error_message error of
                  Inl thrown \<Rightarrow> Rejected thrown
                | Inr m \<Rightarrow>
                    Fulfilled (functionResponses (JObj [(''error'', m)]) (id_call fc))))"
    if callable: "tool_execute t = Inr (Method f)" for f
  proof (cases "f (args fc)")
    case (Fulfilled result)
    with weather truthy show ?thesis
      by (simp add: handleToolCall_def await_execute_def callable)
  next
    case (Rejected error)
    with weather truthy show ?thesis
      by (cases "error_message error")
        (simp_all add: handleToolCall_def await_execute_def callable)
  qed
  then show ?thesis
    using same by simp
qed

text \<open>A weather tool that answers with its argument, called through the alias.\<close>

theorem handleToolCall_alias_witness:
  "Map_get (tools \<lparr>tools = [(''weather'',
                              Instance \<lparr>getDeclaration = Value JUndefined,
                                        execute = Method (\<lambda>a. Fulfilled (JArr [JStr ''sunny'', a]))\<rparr>)],
                   executed = []\<rparr>) ''weather'' =
     Some (Instance \<lparr>getDeclaration = Value JUndefined,
                     execute = Method (\<lambda>a. Fulfilled (JArr [JStr ''sunny'', a]))\<rparr>) \<and>
   tool_truthy (Instance \<lparr>getDeclaration = Value JUndefined,
                          execute = Method (\<lambda>a. Fulfilled (JArr [JStr ''sunny'', a]))\<rparr>) \<and>
   handleToolCall \<lparr>name = ''get_weather_on_date'', args = JStr ''Monday'', id_call = JStr ''x3''\<rparr>
     \<lparr>tools = [(''weather'',
                 Instance \<lparr>getDeclaration = Value JUndefined,
                           execute = Method (\<lambda>a. Fulfilled (JArr [JStr ''sunny'', a]))\<rparr>)],
      executed = []\<rparr> =
   (Fulfilled (JObj [(''functionResponses'',
                     JArr [JObj [(''response'',
                                  JObj [(''output'', JArr [JStr ''sunny'', JStr ''Monday''])]),
                                 (''id'', JStr ''x3'')]])]),
    \<lparr>tools = [(''weather'',
                 Instance \<lparr>getDeclaration = Value JUndefined,
                           execute = Method (\<lambda>a. Fulfilled (JArr [JStr ''sunny'', a]))\<rparr>)],
      executed = [(''weather'', JStr ''Monday'')]\<rparr>)"
  (is "?weather \<and> ?truthy \<and> ?outcome")
proof -
  have weather: ?weather
    by (simp add: Map_get_def)
  have truthy: ?truthy
    by simp
  have ?outcome
    using handleToolCall_alias [OF weather truthy,
        of "\<lparr>name = ''get_weather_on_date'', args = JStr ''Monday'', id_call = JStr ''x3''\<rparr>"]
    by (simp add: handleToolCall_def Map_get_def await_execute_def functionResponses_def
        Let_def)
  with weather truthy show ?thesis
    by (intro conjI)
qed

section \<open>The email sender behind the dispatcher\<close>

text \<open>
  The fourteen names of \<open>registerDefaultTools\<close> are distinct, so the constructor
  returns, with the tools in the order of the calls.
\<close>

lemma ToolManager_constructor_returns:
  "ToolManager_constructor new_tool EMAIL_USER sendMail =
     (Inr (),
      \<lparr>tools =
         [(''googleSearch'', new_tool ''GoogleSearchTool''),
          (''weather'', new_tool ''WeatherTool''),
          (''documentSaver'', new_tool ''DocumentSaverTool''),
          (''emailSender'', EmailSenderTool EMAIL_USER sendMail),
          (''calculator'', new_tool ''CalculatorTool''),
          (''unitConverter'', new_tool ''UnitConverterTool''),
          (''timeConverter'', new_tool ''TimeConverterTool''),
          (''currencyConverter'', new_tool ''CurrencyConverterTool''),
          (''dateCalculator'', new_tool ''DateCalculatorTool''),
          (''textSummarizer'', new_tool ''TextSummarizerTool''),
          (''textTranslator'', new_tool ''TextTranslatorTool''),
          (''randomGenerator'', new_tool ''RandomGeneratorTool''),
          (''passwordGenerator'', new_tool ''PasswordGeneratorTool''),
          (''listGenerator'', new_tool ''ListGeneratorTool'')],
       executed = []\<rparr>)"
  by (simp add: ToolManager_constructor_def registerDefaultTools_def registerTool_def
      new_ToolManager_def Map_has_def)

text \<open>
  C10. \<open>EmailSenderTool.execute\<close> never rejects with the error its body threw: when the
  body fails with \<open>error\<close>, \<open>execute\<close> rejects with a new \<open>Error\<close> whose message is
  \<open>Failed to send email: \<close> followed by the message of \<open>error\<close>, and every rejection
  of \<open>execute\<close> is of this form. So when the tool is registered as \<open>emailSender\<close>,
  the response of the dispatcher is \<open>{output: result}\<close> or an \<open>error\<close> field that
  begins with that prefix.
\<close>

theorem EmailSenderTool_failure_prefix:
  "(\<forall>error. EmailSenderTool_try EMAIL_USER sendMail a = Rejected error \<longrightarrow>
      EmailSenderTool_execute EMAIL_USER sendMail a =
        Rejected (ThrownError (Error (''Failed to send email: '' @ message error)))) \<and>
   (\<forall>e. EmailSenderTool_execute EMAIL_USER sendMail a = Rejected e \<longrightarrow>
      (\<exists>error. EmailSenderTool_try EMAIL_USER sendMail a = Rejected error \<and>
         e = ThrownError (Error (''Failed to send email: '' @ message error)))) \<and>
   (Map_get (tools this) ''emailSender'' = Some (EmailSenderTool EMAIL_USER sendMail) \<longrightarrow>
      fst (handleToolCall \<lparr>name = ''emailSender'', args = a, id_call = i\<rparr> this) =
        Fulfilled (functionResponses
          (case EmailSenderTool_try EMAIL_USER sendMail a of
             Fulfilled result \<Rightarrow> JObj [(''output'', result)]
           | Rejected error \<Rightarrow>
               JObj [(''error'', JStr (''Failed to send email: '' @ message error))])
          i))"
proof (cases "EmailSenderTool_try EMAIL_USER sendMail a")
  case (Fulfilled result)
  then show ?thesis
    by (simp add: EmailSenderTool_execute_def handleToolCall_def await_execute_def
        EmailSenderTool_def)
next
  case (Rejected error)
  then show ?thesis
    by (simp add: EmailSenderTool_execute_def handleToolCall_def await_execute_def
        EmailSenderTool_def)
qed

text \<open>
  A transporter that rejects with \<open>Invalid login\<close>, behind the manager that the
  constructor builds (the other thirteen instances do not matter here: empty objects).
\<close>

theorem EmailSenderTool_failure_prefix_witness:
  "EmailSenderTool_try None (\<lambda>mailOptions. Rejected (Error ''Invalid login''))
     (JObj [(''recipients'', JArr [JStr ''a@x.org'', JStr ''b@x.org'']),
            (''subject'', JStr ''Hi''), (''body'', JStr ''Text'')]) =
     Rejected (Error ''Invalid login'') \<and>
   EmailSenderTool_execute None (\<lambda>mailOptions. Rejected (Error ''Invalid login''))
     (JObj [(''recipients'', JArr [JStr ''a@x.org'', JStr ''b@x.org'']),
            (''subject'', JStr ''Hi''), (''body'', JStr ''Text'')]) =
     Rejected (ThrownError (Error ''Failed to send email: Invalid login'')) \<and>
   Map_get (tools (snd (ToolManager_constructor (\<lambda>c. Plain (JObj [])) None
                          (\<lambda>mailOptions. Rejected (Error ''Invalid login''))))) ''emailSender'' =
     Some (EmailSenderTool None (\<lambda>mailOptions. Rejected (Error ''Invalid login''))) \<and>
   fst (handleToolCall
          \<lparr>name = ''emailSender'',
           args = JObj [(''recipients'', JArr [JStr ''a@x.org'', JStr ''b@x.org'']),
                        (''subject'', JStr ''Hi''), (''body'', JStr ''Text'')],
           id_call = JStr ''x4''\<rparr>
          (snd (ToolManager_constructor (\<lambda>c. Plain (JObj [])) None
                  (\<lambda>mailOptions. Rejected (Error ''Invalid login''))))) =
     Fulfilled (JObj [(''functionResponses'',
                      JArr [JObj [(''response'',
                                   JObj [(''error'', JStr ''Failed to send email: Invalid login'')]),
                                  (''id'', JStr ''x4'')]])])"
  (is "?body \<and> ?wrapped \<and> ?registered \<and> ?response")
proof -
  have body: ?body
    by (simp add: EmailSenderTool_try_def)
  have registered: ?registered
    by (simp add: ToolManager_constructor_returns Map_get_def)
  note prefix = EmailSenderTool_failure_prefix
        [of None "\<lambda>mailOptions. Rejected (Error ''Invalid login'')"
            "JObj [(''recipients'', JArr [JStr ''a@x.org'', JStr ''b@x.org'']),
                   (''subject'', JStr ''Hi''), (''body'', JStr ''Text'')]"
            "snd (ToolManager_constructor (\<lambda>c. Plain (JObj [])) None
                    (\<lambda>mailOptions. Rejected (Error ''Invalid login'')))"
            "JStr ''x4''"]
  from prefix [THEN conjunct1] body
  have "EmailSenderTool_execute None (\<lambda>mailOptions. Rejected (Error ''Invalid login''))
     (JObj [(''recipients'', JArr [JStr ''a@x.org'', JStr ''b@x.org'']),
            (''subject'', JStr ''Hi''), (''body'', JStr ''Text'')]) =
     Rejected (ThrownError (Error (''Failed to send email: '' @ message (Error ''Invalid login''))))"
    by blast
  then have wrapped: ?wrapped
    by simp
  from prefix [THEN conjunct2, THEN conjunct2] registered
  have "fst (handleToolCall
          \<lparr>name = ''emailSender'',
           args = JObj [(''recipients'', JArr [JStr ''a@x.org'', JStr ''b@x.org'']),
                        (''subject'', JStr ''Hi''), (''body'', JStr ''Text'')],
           id_call = JStr ''x4''\<rparr>
          (snd (ToolManager_constructor (\<lambda>c. Plain (JObj [])) None
                  (\<lambda>mailOptions. Rejected (Error ''Invalid login''))))) =
        Fulfilled (functionResponses
          (case EmailSenderTool_try None (\<lambda>mailOptions. Rejected (Error ''Invalid login''))
                  (JObj [(''recipients'', JArr [JStr ''a@x.org'', JStr ''b@x.org'']),
                         (''subject'', JStr ''Hi''), (''body'', JStr ''Text'')]) of
             Fulfilled result \<Rightarrow> JObj [(''output'', result)]
           | Rejected error \<Rightarrow>
               JObj [(''error'', JStr (''Failed to send email: '' @ message error))])
          (JStr ''x4''))"
    by (rule mp)
  then have response: ?response
    unfolding body by (simp add: functionResponses_def)
  from body wrapped registered response show ?thesis
    by (intro conjI)
qed

end
